theory Spec2Isabelle
  imports Complex_Main
begin

section \<open>Floating-point values and arrays\<close>

text \<open>
  A grid cell is a 64-bit float. The model keeps the three special values apart from
  the finite ones and takes the finite ones as real numbers: rounding is not modelled,
  the special values follow IEEE 754 as numpy applies it.
\<close>

datatype float64 = Fin real | PInf | NInf | NaN

fun isposinf :: "float64 \<Rightarrow> bool" where
  "isposinf PInf = True"
| "isposinf _ = False"

fun isneginf :: "float64 \<Rightarrow> bool" where
  "isneginf NInf = True"
| "isneginf _ = False"

fun isinf :: "float64 \<Rightarrow> bool" where
  "isinf PInf = True"
| "isinf NInf = True"
| "isinf _ = False"

fun isnan :: "float64 \<Rightarrow> bool" where
  "isnan NaN = True"
| "isnan _ = False"

fun isfinite :: "float64 \<Rightarrow> bool" where
  "isfinite (Fin r) = True"
| "isfinite _ = False"

fun fneg :: "float64 \<Rightarrow> float64" where
  "fneg (Fin a) = Fin (- a)"
| "fneg PInf = NInf"
| "fneg NInf = PInf"
| "fneg NaN = NaN"

fun fadd :: "float64 \<Rightarrow> float64 \<Rightarrow> float64" where
  "fadd (Fin a) (Fin b) = Fin (a + b)"
| "fadd NaN _ = NaN"
| "fadd _ NaN = NaN"
| "fadd PInf NInf = NaN"
| "fadd NInf PInf = NaN"
| "fadd PInf _ = PInf"
| "fadd _ PInf = PInf"
| "fadd NInf _ = NInf"
| "fadd _ NInf = NInf"

definition fsub :: "float64 \<Rightarrow> float64 \<Rightarrow> float64" where
  "fsub a b = fadd a (fneg b)"

text \<open>Comparisons with NaN are false, as in Python and numpy.\<close>

fun fless :: "float64 \<Rightarrow> float64 \<Rightarrow> bool" where
  "fless (Fin a) (Fin b) = (a < b)"
| "fless NaN _ = False"
| "fless _ NaN = False"
| "fless _ NInf = False"
| "fless PInf _ = False"
| "fless NInf _ = True"
| "fless _ PInf = True"

fun fle :: "float64 \<Rightarrow> float64 \<Rightarrow> bool" where
  "fle (Fin a) (Fin b) = (a \<le> b)"
| "fle NaN _ = False"
| "fle _ NaN = False"
| "fle NInf _ = True"
| "fle _ PInf = True"
| "fle _ NInf = False"
| "fle PInf _ = False"

fun fabs :: "float64 \<Rightarrow> float64" where
  "fabs (Fin a) = Fin \<bar>a\<bar>"
| "fabs PInf = PInf"
| "fabs NInf = PInf"
| "fabs NaN = NaN"

text \<open>
  Division of numpy scalars: a zero divisor gives an infinity or NaN (with a warning),
  it does not raise. The sign of zero is not modelled.
\<close>

fun fdiv :: "float64 \<Rightarrow> float64 \<Rightarrow> float64" where
  "fdiv (Fin a) (Fin b) =
     (if b \<noteq> 0 then Fin (a / b)
      else if 0 < a then PInf else if a < 0 then NInf else NaN)"
| "fdiv NaN _ = NaN"
| "fdiv _ NaN = NaN"
| "fdiv (Fin a) _ = Fin 0"
| "fdiv PInf (Fin b) = (if 0 \<le> b then PInf else NInf)"
| "fdiv NInf (Fin b) = (if 0 \<le> b then NInf else PInf)"
| "fdiv _ _ = NaN"

text \<open>
  A two-dimensional ndarray is its shape (rows, columns) and its cells, read as
  \<open>cell a y x\<close> for \<open>a[y, x]\<close>. Only cells inside the shape are ever read.
\<close>

record 'a ndarray =
  shape :: "nat \<times> nat"
  cell :: "nat \<Rightarrow> nat \<Rightarrow> 'a"

type_synonym grid = "float64 ndarray"
type_synonym mask = "bool ndarray"

definition rows :: "'a ndarray \<Rightarrow> nat" where
  "rows a = fst (shape a)"

definition cols :: "'a ndarray \<Rightarrow> nat" where
  "cols a = snd (shape a)"

definition np_any :: "('a \<Rightarrow> bool) \<Rightarrow> 'a ndarray \<Rightarrow> bool" where
  "np_any p a = list_ex (\<lambda>y. list_ex (\<lambda>x. p (cell a y x)) [0..<cols a]) [0..<rows a]"

definition np_where :: "('a \<Rightarrow> bool) \<Rightarrow> 'a \<Rightarrow> 'a ndarray \<Rightarrow> 'a ndarray" where
  "np_where p v a = a\<lparr>cell := \<lambda>y x. if p (cell a y x) then v else cell a y x\<rparr>"

text \<open>The cells in C order, as \<open>np.argmax\<close> numbers them, and \<open>np.unravel_index\<close>.\<close>

definition flat :: "'a ndarray \<Rightarrow> 'a list" where
  "flat a = map (\<lambda>i. cell a (i div cols a) (i mod cols a)) [0..<rows a * cols a]"

definition unravel_index :: "nat \<Rightarrow> 'a ndarray \<Rightarrow> nat \<times> nat" where
  "unravel_index i a = (i div cols a, i mod cols a)"

text \<open>
  \<open>np.argmax\<close> on floats keeps the first maximum and stops at the first NaN; an empty
  array raises ValueError (\<open>None\<close> here).
\<close>

fun argmax_from :: "nat \<Rightarrow> float64 \<Rightarrow> nat \<Rightarrow> float64 list \<Rightarrow> nat" where
  "argmax_from bi bv i [] = bi"
| "argmax_from bi bv i (v # vs) =
     (if isnan bv then bi
      else if \<not> fle v bv then argmax_from i v (Suc i) vs
      else argmax_from bi bv (Suc i) vs)"

definition np_argmax :: "grid \<Rightarrow> nat option" where
  "np_argmax a = (case flat a of [] \<Rightarrow> None | v # vs \<Rightarrow> Some (argmax_from 0 v 1 vs))"

text \<open>
  Indexing \<open>a[i, j]\<close> with Python integers: a negative index counts from the end, an
  index outside the axis raises IndexError (\<open>None\<close> here).
\<close>

definition axis_index :: "nat \<Rightarrow> int \<Rightarrow> nat option" where
  "axis_index n i =
     (if 0 \<le> i \<and> i < int n then Some (nat i)
      else if - int n \<le> i \<and> i < 0 then Some (nat (i + int n))
      else None)"

definition np_get :: "'a ndarray \<Rightarrow> int \<Rightarrow> int \<Rightarrow> 'a option" where
  "np_get a i j =
     (case axis_index (rows a) i of
        None \<Rightarrow> None
      | Some y \<Rightarrow> (case axis_index (cols a) j of
                     None \<Rightarrow> None
                   | Some x \<Rightarrow> Some (cell a y x)))"

section \<open>Points and units\<close>

text \<open>A \<open>Point2\<close> is the pair (x, y); \<open>distance_to\<close> is the Euclidean distance.\<close>

type_synonym point = "real \<times> real"

definition distance_to :: "point \<Rightarrow> point \<Rightarrow> real" where
  "distance_to p q = sqrt ((fst p - fst q)\<^sup>2 + (snd p - snd q)\<^sup>2)"

record sc2_unit =
  tag :: nat
  position :: point
  movement_speed :: real

text \<open>Python's \<open>int(x)\<close> on a float truncates towards zero.\<close>

definition py_int :: "real \<Rightarrow> int" where
  "py_int r = (if 0 \<le> r then \<lfloor>r\<rfloor> else \<lceil>r\<rceil>)"

text \<open>\<open>min(max(int(v), 0), n - 1)\<close>, the grid coordinate of a position.\<close>

definition grid_coord :: "real \<Rightarrow> nat \<Rightarrow> int" where
  "grid_coord v n = min (max (py_int v) 0) (int n - 1)"

section \<open>The nova instance\<close>

text \<open>
  What the attribute \<open>get_tactical_ground_grid\<close> of the mediator gives: an ndarray,
  some other object, or an exception. The constructor stores whatever it is passed as
  mediator and bot, so these fields hold Python values.
\<close>

datatype tactical_grid = NdArray grid | NotNdArray | AccessRaises

datatype py_value = IntVal int | MapData | Bot | Mediator tactical_grid

datatype error = AttributeError | TypeError | ValueError | IndexError

record nova =
  cooldown :: real
  nova_duration :: real
  best_target_pos :: "point option"
  frames_left :: int
  distance_left :: real
  unit :: "sc2_unit option"
  mediator :: py_value
  bot :: py_value
  best_target_influence :: float64
  should_debug_visuals :: bool
  best_target_score :: "int option"
  influence_grid :: "grid option"

text \<open>
  \<open>best_target_score\<close> and \<open>influence_grid\<close> are attributes that \<open>__init__\<close> does not
  set: \<open>None\<close> stands for the missing attribute.
\<close>

definition init :: "py_value \<Rightarrow> py_value \<Rightarrow> nova" where
  "init mediator_arg bot_arg =
     \<lparr>cooldown = 21.4, nova_duration = 2.1, best_target_pos = None,
      frames_left = 48, distance_left = 0, unit = None, mediator = mediator_arg,
      bot = bot_arg, best_target_influence = Fin 0, should_debug_visuals = False,
      best_target_score = None, influence_grid = None\<rparr>"

text \<open>
  A call \<open>UseDisruptorNova(...)\<close> with its positional arguments: \<open>__init__\<close> takes
  exactly a mediator and a bot, any other number of arguments is a TypeError.
\<close>

fun UseDisruptorNova :: "py_value list \<Rightarrow> error + nova" where
  "UseDisruptorNova [mediator_arg, bot_arg] = Inr (init mediator_arg bot_arg)"
| "UseDisruptorNova _ = Inl TypeError"

subsection \<open>get_grid\<close>

text \<open>
  Every exception is caught and gives None; a mediator that is no mediator at all has
  no such attribute.
\<close>

definition get_grid :: "nova \<Rightarrow> grid option" where
  "get_grid self =
     (case mediator self of
        Mediator (NdArray g) \<Rightarrow>
          (let grid_copy = g;
               grid_copy = (if np_any isinf grid_copy
                            then np_where isneginf (Fin (- 500))
                                   (np_where isposinf (Fin 500) grid_copy)
                            else grid_copy);
               grid_copy = (if np_any isnan grid_copy
                            then np_where isnan (Fin 0) grid_copy
                            else grid_copy)
           in Some grid_copy)
      | Mediator NotNdArray \<Rightarrow> None
      | Mediator AccessRaises \<Rightarrow> None
      | _ \<Rightarrow> None)"

subsection \<open>The position-sampling tier\<close>

definition py_range :: "nat \<Rightarrow> nat \<Rightarrow> nat list" where
  "py_range stop step = map (\<lambda>k. k * step) [0..<(stop + step - 1) div step]"

definition candidate_positions :: "sc2_unit list \<Rightarrow> nat \<Rightarrow> nat \<Rightarrow> point list" where
  "candidate_positions enemy_units x_max y_max =
     concat (map (\<lambda>enemy.
        (let pos = position enemy in
         pos # map (\<lambda>(dx, dy). (fst pos + dx, snd pos + dy))
                 [(2, 0), (- 2, 0), (0, 2), (0, - 2)])) enemy_units)
     @ concat (map (\<lambda>x. map (\<lambda>y. (real x, real y)) (py_range y_max 8)) (py_range x_max 8))"

text \<open>
  The exclusion test of one candidate. An IndexError from the mask lookup is caught
  and the candidate is scored like one that is not excluded.
\<close>

definition excluded :: "mask option \<Rightarrow> grid option \<Rightarrow> point \<Rightarrow> bool" where
  "excluded exclusion_mask grid pos =
     (case exclusion_mask of
        None \<Rightarrow> False
      | Some m \<Rightarrow>
          (case grid of
             None \<Rightarrow> False
           | Some g \<Rightarrow>
               (let grid_y = grid_coord (snd pos) (rows g);
                    grid_x = grid_coord (fst pos) (cols g)
                in case np_get m grid_y grid_x of None \<Rightarrow> False | Some b \<Rightarrow> b)))"

definition nova_radius :: real where
  "nova_radius = 1.5"

definition units_hit :: "point \<Rightarrow> sc2_unit list \<Rightarrow> nat" where
  "units_hit pos us = length (filter (\<lambda>u. distance_to pos (position u) \<le> nova_radius) us)"

definition score_of :: "point \<Rightarrow> sc2_unit list \<Rightarrow> sc2_unit list \<Rightarrow> int" where
  "score_of pos enemy_units friendly_units =
     int (units_hit pos enemy_units) * 150 - int (units_hit pos friendly_units) * 200"

definition scored :: "mask option \<Rightarrow> grid option \<Rightarrow> sc2_unit list \<Rightarrow> sc2_unit list
    \<Rightarrow> point list \<Rightarrow> (point \<times> int) list" where
  "scored exclusion_mask grid enemy_units friendly_units candidates =
     map (\<lambda>pos. (pos, score_of pos enemy_units friendly_units))
       (filter (\<lambda>pos. \<not> excluded exclusion_mask grid pos
                      \<and> 0 < units_hit pos enemy_units
                      \<and> - 100 < score_of pos enemy_units friendly_units) candidates)"

text \<open>\<open>min(xs, key=f)\<close> on a non-empty list: the first element with the least key.\<close>

fun min_key :: "('a \<Rightarrow> real) \<Rightarrow> 'a \<Rightarrow> 'a list \<Rightarrow> 'a" where
  "min_key f b [] = b"
| "min_key f b (x # xs) = min_key f (if f x < f b then x else b) xs"

text \<open>
  \<open>scores.sort(key=..., reverse=True)\<close> is stable, so the head of the sorted list is
  the first candidate of the highest score. Every exception is caught and gives None;
  the only one the model can meet is the AttributeError of \<open>self.unit.position\<close> in the
  last resort, when no unit is bound.
\<close>

definition select_target_position_based ::
    "nova \<Rightarrow> sc2_unit list \<Rightarrow> sc2_unit list \<Rightarrow> mask option \<Rightarrow> point option \<times> nova" where
  "select_target_position_based self enemy_units friendly_units exclusion_mask =
     (let grid = get_grid self;
          (x_max, y_max) = (case grid of Some g \<Rightarrow> (cols g, rows g) | None \<Rightarrow> (200, 200));
          scores = sort_key (\<lambda>ps. - snd ps)
                     (scored exclusion_mask grid enemy_units friendly_units
                        (candidate_positions enemy_units x_max y_max))
      in case scores of
           (best_pos, best_score) # _ \<Rightarrow>
             (Some best_pos,
              self\<lparr>best_target_pos := Some best_pos, best_target_score := Some best_score\<rparr>)
         | [] \<Rightarrow>
             (case enemy_units of
                [] \<Rightarrow> (None, self)
              | e # es \<Rightarrow>
                  (case unit self of
                     None \<Rightarrow> (None, self)
                   | Some u \<Rightarrow>
                       (let closest_enemy =
                              min_key (\<lambda>enemy. distance_to (position u) (position enemy)) e es;
                            target_pos = position closest_enemy
                        in (Some target_pos,
                            self\<lparr>best_target_pos := Some target_pos,
                                 best_target_score := Some (- 1)\<rparr>)))))"

subsection \<open>The grid tier\<close>

definition grid_distance :: "nat \<Rightarrow> nat \<Rightarrow> int \<Rightarrow> int \<Rightarrow> real" where
  "grid_distance y x uy ux = sqrt (real_of_int ((int y - uy)\<^sup>2 + (int x - ux)\<^sup>2))"

definition near_unit :: "grid \<Rightarrow> nat \<Rightarrow> nat \<Rightarrow> sc2_unit \<Rightarrow> bool" where
  "near_unit g y x u =
     (grid_distance y x (grid_coord (snd (position u)) (rows g))
                        (grid_coord (fst (position u)) (cols g)) \<le> nova_radius)"

text \<open>
  \<open>enemy_positions\<close> has a marked cell as soon as there is an enemy, since the grid is
  not empty here and the coordinates are clamped into it.
\<close>

definition boost_enemies :: "sc2_unit list \<Rightarrow> grid \<Rightarrow> grid" where
  "boost_enemies enemy_units working_grid =
     (if enemy_units \<noteq> [] then
        working_grid\<lparr>cell := \<lambda>y x.
          if list_ex (near_unit working_grid y x) enemy_units
          then fadd (cell working_grid y x) (Fin 50) else cell working_grid y x\<rparr>
      else working_grid)"

definition friendly_penalty_map :: "sc2_unit list \<Rightarrow> grid \<Rightarrow> nat \<Rightarrow> nat \<Rightarrow> real" where
  "friendly_penalty_map friendly_units working_grid y x =
     foldl (\<lambda>acc friendly. if near_unit working_grid y x friendly then acc + 150 else acc)
       0 friendly_units"

definition penalize_friendlies :: "sc2_unit list \<Rightarrow> grid \<Rightarrow> grid" where
  "penalize_friendlies friendly_units working_grid =
     (if friendly_units \<noteq> [] then
        working_grid\<lparr>cell := \<lambda>y x.
          fsub (cell working_grid y x)
               (Fin (friendly_penalty_map friendly_units working_grid y x))\<rparr>
      else working_grid)"

definition edge_width :: nat where
  "edge_width = 2"

definition on_edge :: "grid \<Rightarrow> nat \<Rightarrow> nat \<Rightarrow> bool" where
  "on_edge g y x =
     (y < edge_width \<or> x < edge_width \<or> rows g \<le> y + edge_width \<or> cols g \<le> x + edge_width)"

definition mask_edges :: "grid \<Rightarrow> grid" where
  "mask_edges working_grid =
     working_grid\<lparr>cell := \<lambda>y x. if on_edge working_grid y x then NInf
                                 else cell working_grid y x\<rparr>"

definition apply_exclusion :: "mask \<Rightarrow> grid \<Rightarrow> grid" where
  "apply_exclusion exclusion_mask g =
     g\<lparr>cell := \<lambda>y x. if cell exclusion_mask y x then NInf else cell g y x\<rparr>"

text \<open>\<open>_visualize_grid\<close> stores the grid first; whatever fails after that is caught.\<close>

definition visualize_grid :: "nova \<Rightarrow> grid \<Rightarrow> nova" where
  "visualize_grid self g = self\<lparr>influence_grid := Some g\<rparr>"

definition accepts :: "float64 \<Rightarrow> bool" where
  "accepts best_influence = (fless (Fin 210) best_influence \<and> fless best_influence (Fin 600))"

definition grid_tier ::
    "nova \<Rightarrow> sc2_unit list \<Rightarrow> sc2_unit list \<Rightarrow> mask option \<Rightarrow> grid \<Rightarrow> point option \<times> nova" where
  "grid_tier self enemy_units friendly_units exclusion_mask working_grid0 =
     (let working_grid = mask_edges (penalize_friendlies friendly_units
                           (boost_enemies enemy_units working_grid0))
      in case np_argmax working_grid of
           None \<Rightarrow> select_target_position_based self enemy_units friendly_units exclusion_mask
         | Some i \<Rightarrow>
             (let (best_y, best_x) = unravel_index i working_grid;
                  best_influence = cell working_grid best_y best_x
              in if accepts best_influence then
                   (let best_pos = (real best_x, real best_y);
                        self = self\<lparr>best_target_pos := Some best_pos,
                                    best_target_influence := best_influence\<rparr>;
                        self = (if should_debug_visuals self
                                then visualize_grid self working_grid else self)
                    in (Some best_pos, self))
                 else select_target_position_based self enemy_units friendly_units
                        exclusion_mask))"

text \<open>
  The debug line after the grid is fetched takes \<open>np.min\<close> and \<open>np.max\<close> of it; on an
  array without cells they raise ValueError, which the outer handler turns into None.
\<close>

definition select_best_target ::
    "nova \<Rightarrow> sc2_unit list \<Rightarrow> sc2_unit list \<Rightarrow> mask option \<Rightarrow> point option \<times> nova" where
  "select_best_target self enemy_units friendly_units exclusion_mask =
     (if enemy_units = [] then (None, self)
      else case get_grid self of
             None \<Rightarrow> select_target_position_based self enemy_units friendly_units exclusion_mask
           | Some g \<Rightarrow>
               (let grid = np_where isneginf (Fin (- 500)) (np_where isposinf (Fin 500) g)
                in if rows grid * cols grid = 0 then (None, self)
                   else case exclusion_mask of
                          Some m \<Rightarrow>
                            if shape m \<noteq> shape grid
                            then select_target_position_based self enemy_units friendly_units
                                   exclusion_mask
                            else grid_tier self enemy_units friendly_units exclusion_mask
                                   (apply_exclusion m grid)
                        | None \<Rightarrow>
                            grid_tier self enemy_units friendly_units exclusion_mask grid))"

section \<open>Retargeting\<close>

text \<open>
  \<open>update_target_position\<close> takes the manager as an object of any class and reaches
  for \<open>nova_speed\<close>, \<open>current_targets\<close>, \<open>unregister_nova_target\<close>,
  \<open>register_nova_target\<close> and \<open>get_exclusion_mask\<close> on it. The class is described by
  what each of these gives on a manager state \<open>'m\<close>; \<open>None\<close> stands for the exception
  (an AttributeError when the class has no such member), and for \<open>current_targets\<close>
  for \<open>hasattr\<close> being false. A call that raises leaves the manager as it was.

  Modelled from the spec: no class of the repository defines \<open>get_exclusion_mask\<close>;
  the exclusion mask is a boolean grid of the same shape as the value field, so the
  operation gives the cells of a mask of the shape of the grid it is passed.
\<close>

record 'm manager_class =
  nova_speed :: "'m \<Rightarrow> real option"
  current_targets :: "'m \<Rightarrow> point list option"
  unregister_nova_target :: "'m \<Rightarrow> point \<Rightarrow> 'm option"
  register_nova_target :: "'m \<Rightarrow> point \<Rightarrow> (bool \<times> 'm) option"
  get_exclusion_mask :: "'m \<Rightarrow> grid \<Rightarrow> (nat \<Rightarrow> nat \<Rightarrow> bool) option"

definition out_of_reach_mask :: "grid \<Rightarrow> point \<Rightarrow> real \<Rightarrow> mask" where
  "out_of_reach_mask grid current_position max_travel_distance =
     \<lparr>shape = shape grid,
      cell = \<lambda>y x. max_travel_distance <
               sqrt ((real x - fst current_position)\<^sup>2 + (real y - snd current_position)\<^sup>2)\<rparr>"

definition logical_or :: "(nat \<Rightarrow> nat \<Rightarrow> bool) \<Rightarrow> mask \<Rightarrow> mask" where
  "logical_or exclusion out_of_reach =
     out_of_reach\<lparr>cell := \<lambda>y x. exclusion y x \<or> cell out_of_reach y x\<rparr>"

definition too_close_to :: "point \<Rightarrow> point \<Rightarrow> point list \<Rightarrow> bool" where
  "too_close_to new_target own nova_targets =
     list_ex (\<lambda>target_pos. target_pos \<noteq> own \<and> distance_to new_target target_pos < 5) nova_targets"

definition mask_around :: "point list \<Rightarrow> grid \<Rightarrow> grid" where
  "mask_around nova_targets masked_grid =
     masked_grid\<lparr>cell := \<lambda>y x.
       if list_ex (\<lambda>target_pos.
            sqrt ((real x - fst target_pos)\<^sup>2 + (real y - snd target_pos)\<^sup>2) < 5) nova_targets
       then Fin (- 500) else cell masked_grid y x\<rparr>"

definition replace_inf :: "float64 \<Rightarrow> float64" where
  "replace_inf v = (if isinf v then (if fless (Fin 0) v then Fin 500 else Fin (- 500)) else v)"

definition influence_at :: "grid \<Rightarrow> point \<Rightarrow> float64 option" where
  "influence_at grid pos =
     map_option replace_inf
       (np_get grid (grid_coord (snd pos) (rows grid)) (grid_coord (fst pos) (cols grid)))"

definition improvement_of :: "float64 \<Rightarrow> float64 \<Rightarrow> float64" where
  "improvement_of current_influence new_influence =
     (if fless (fabs current_influence) (Fin 1)
      then (if fless current_influence new_influence then Fin 1 else Fin (- 1))
      else fdiv (fsub new_influence current_influence) (fabs current_influence))"

text \<open>
  The search of the grid for the best reachable cell that no other nova claims:
  the candidate and its value, or None when no cell is valid.
\<close>

definition search_grid :: "'m manager_class \<Rightarrow> 'm \<Rightarrow> nova \<Rightarrow> grid \<Rightarrow> mask
    \<Rightarrow> (point \<times> float64) option" where
  "search_grid cls nova_manager self grid combined_mask =
     (if np_any (\<lambda>b. \<not> b) combined_mask then
        (let grid_copy = np_where isneginf (Fin (- 500)) (np_where isposinf (Fin 500) grid);
             masked_grid = grid_copy\<lparr>cell := \<lambda>y x.
               if \<not> cell combined_mask y x then cell grid_copy y x else Fin (- 500)\<rparr>
         in case np_argmax masked_grid of
              None \<Rightarrow> None
            | Some i \<Rightarrow>
                (let (max_y, max_x) = unravel_index i grid;
                     new_target = (real max_x, real max_y);
                     is_valid_target =
                       (case current_targets cls nova_manager of
                          None \<Rightarrow> True
                        | Some ts \<Rightarrow>
                            (case best_target_pos self of
                               None \<Rightarrow> True
                             | Some own \<Rightarrow> \<not> too_close_to new_target own ts))
                 in if is_valid_target then Some (new_target, cell masked_grid max_y max_x)
                    else (case current_targets cls nova_manager of
                            None \<Rightarrow> None
                          | Some ts \<Rightarrow>
                              (let masked_grid = mask_around ts masked_grid
                               in case np_argmax masked_grid of
                                    None \<Rightarrow> None
                                  | Some j \<Rightarrow>
                                      (let (max_y, max_x) = unravel_index j grid
                                       in Some ((real max_x, real max_y),
                                                cell masked_grid max_y max_x))))))
      else None)"

text \<open>
  The comparison of the candidate with the current target and the switch. It gives the
  returned flag, the instance and the manager. An IndexError while the influences are
  read is caught and gives False.
\<close>

definition compare_and_switch :: "'m manager_class \<Rightarrow> 'm \<Rightarrow> nova \<Rightarrow> grid \<Rightarrow> point
    \<Rightarrow> float64 option \<Rightarrow> bool \<times> nova \<times> 'm" where
  "compare_and_switch cls nova_manager self grid new_target new_influence0 =
     (case best_target_pos self of
        None \<Rightarrow> (False, self, nova_manager)
      | Some own \<Rightarrow>
          (case influence_at grid own of
             None \<Rightarrow> (False, self, nova_manager)
           | Some current_influence \<Rightarrow>
               (case (case new_influence0 of
                        Some v \<Rightarrow> Some v
                      | None \<Rightarrow> influence_at grid new_target) of
                  None \<Rightarrow> (False, self, nova_manager)
                | Some new_influence \<Rightarrow>
                    (let self = self\<lparr>best_target_influence := new_influence\<rparr>;
                         improvement = improvement_of current_influence new_influence
                     in if fless (Fin 0.15) improvement then
                          (let too_close =
                                 (case current_targets cls nova_manager of
                                    None \<Rightarrow> False
                                  | Some ts \<Rightarrow> ts \<noteq> [] \<and> too_close_to new_target own ts)
                           in if \<not> too_close then
                                (let self = self\<lparr>best_target_pos := Some new_target\<rparr>;
                                     nova_manager =
                                       (case register_nova_target cls nova_manager new_target of
                                          None \<Rightarrow> nova_manager
                                        | Some (registered, m) \<Rightarrow> m)
                                 in (True, self, nova_manager))
                              else (True, self, nova_manager))
                        else (False, self, nova_manager)))))"

text \<open>
  The exclusion mask of the manager, combined with the reach of the nova; when the
  manager gives no mask the reach alone is used.
\<close>

definition combined_mask_of :: "'m manager_class \<Rightarrow> 'm \<Rightarrow> grid \<Rightarrow> mask \<Rightarrow> mask" where
  "combined_mask_of cls nova_manager grid out_of_reach =
     (case get_exclusion_mask cls nova_manager grid of
        None \<Rightarrow> out_of_reach
      | Some exclusion \<Rightarrow> logical_or exclusion out_of_reach)"

text \<open>
  The search under the combined mask, the fallback to \<open>select_best_target\<close> when the
  grid has no valid cell, the registration of the current target again, and the
  comparison. The fallback stores its result in \<open>best_target_pos\<close>, so what is
  registered again and compared is the target of the instance after the fallback.
\<close>

definition retarget :: "'m manager_class \<Rightarrow> nova \<Rightarrow> sc2_unit list \<Rightarrow> sc2_unit list
    \<Rightarrow> 'm \<Rightarrow> bool \<Rightarrow> grid \<Rightarrow> mask \<Rightarrow> bool \<times> nova \<times> 'm" where
  "retarget cls self enemy_units friendly_units nova_manager
       current_target_temporarily_unregistered grid combined_mask =
     (let (new_target, new_influence, self) =
            (case search_grid cls nova_manager self grid combined_mask of
               Some (t, v) \<Rightarrow> (Some t, Some v, self)
             | None \<Rightarrow>
                 (let (t, self) = select_best_target self enemy_units friendly_units
                                    (Some combined_mask)
                  in (t, None, self)));
          nova_manager =
            (if current_target_temporarily_unregistered then
               (case best_target_pos self of
                  None \<Rightarrow> nova_manager
                | Some p \<Rightarrow>
                    (case register_nova_target cls nova_manager p of
                       None \<Rightarrow> nova_manager
                     | Some (registered, m) \<Rightarrow> m))
             else nova_manager)
      in case new_target of
           None \<Rightarrow> (False, self, nova_manager)
         | Some t \<Rightarrow> compare_and_switch cls nova_manager self grid t new_influence)"

text \<open>
  Every exception inside is caught and gives False: the AttributeError of a manager
  without \<open>nova_speed\<close> among them.
\<close>

definition update_target_position :: "'m manager_class \<Rightarrow> nova \<Rightarrow> sc2_unit list
    \<Rightarrow> sc2_unit list \<Rightarrow> 'm \<Rightarrow> bool \<times> nova \<times> 'm" where
  "update_target_position cls self enemy_units friendly_units nova_manager =
     (case best_target_pos self of
        None \<Rightarrow> (False, self, nova_manager)
      | Some own \<Rightarrow>
     (case unit self of
        None \<Rightarrow> (False, self, nova_manager)
      | Some u \<Rightarrow>
          if frames_left self < 5 then (False, self, nova_manager)
          else
     (case nova_speed cls nova_manager of
        None \<Rightarrow> (False, self, nova_manager)
      | Some speed \<Rightarrow>
     (case get_grid self of
        None \<Rightarrow> (False, self, nova_manager)
      | Some grid \<Rightarrow>
          (let current_position = position u;
               max_travel_distance = speed * (real_of_int (frames_left self) / 22.4);
               out_of_reach = out_of_reach_mask grid current_position max_travel_distance;
               (current_target_temporarily_unregistered, nova_manager) =
                 (case unregister_nova_target cls nova_manager own of
                    None \<Rightarrow> (False, nova_manager)
                  | Some m \<Rightarrow> (True, m))
           in retarget cls self enemy_units friendly_units nova_manager
                current_target_temporarily_unregistered grid
                (combined_mask_of cls nova_manager grid out_of_reach))))))"

section \<open>The life of a nova\<close>

datatype command = Move sc2_unit point | Fire sc2_unit point

definition calculate_distance_left :: "nova \<Rightarrow> real \<Rightarrow> real" where
  "calculate_distance_left self unit_speed = real_of_int (frames_left self) * (unit_speed / 22.4)"

definition load_info :: "nova \<Rightarrow> sc2_unit \<Rightarrow> nova" where
  "load_info self u =
     (let self = self\<lparr>unit := Some u\<rparr>;
          self = self\<lparr>frames_left := 48\<rparr>;
          self = self\<lparr>distance_left := calculate_distance_left self (movement_speed u)\<rparr>
      in self\<lparr>best_target_pos := Some (position u)\<rparr>)"

text \<open>
  \<open>update_info\<close> lowers the counter and then reads \<open>self.unit.movement_speed\<close>: without
  a unit this is an AttributeError, raised after the counter has changed.
\<close>

definition update_info :: "nova \<Rightarrow> error option \<times> nova" where
  "update_info self =
     (let self = self\<lparr>frames_left := frames_left self - 1\<rparr>
      in case unit self of
           None \<Rightarrow> (Some AttributeError, self)
         | Some u \<Rightarrow>
             (None, self\<lparr>distance_left := calculate_distance_left self (movement_speed u)\<rparr>))"

text \<open>
  \<open>run_debug\<close> prints the position of the unit before anything else; what it draws
  afterwards is inside a handler.
\<close>

definition run_debug :: "nova \<Rightarrow> error option" where
  "run_debug self = (case unit self of None \<Rightarrow> Some AttributeError | Some u \<Rightarrow> None)"

text \<open>
  One step of a nova. The result is the exception or the returned flag, the instance,
  the manager and the commands issued. The comparison of a target with a position is
  taken as equality of the coordinates.
\<close>

definition run_step :: "'m manager_class \<Rightarrow> nova \<Rightarrow> sc2_unit list \<Rightarrow> sc2_unit list
    \<Rightarrow> 'm option \<Rightarrow> (error + bool) \<times> nova \<times> 'm option \<times> command list" where
  "run_step cls self enemy_units friendly_units nova_manager =
     (if frames_left self \<le> 0 then (Inr False, self, nova_manager, [])
      else
        (let self = self\<lparr>frames_left := frames_left self - 1\<rparr>;
             (self, nova_manager) =
               (case nova_manager of
                  None \<Rightarrow> (self, None)
                | Some m \<Rightarrow>
                    (let (updated, self, m) =
                           update_target_position cls self enemy_units friendly_units m
                     in (self, Some m)))
         in if frames_left self mod 22 = 0 \<and> influence_grid self \<noteq> None
               \<and> run_debug self \<noteq> None
            then (Inl AttributeError, self, nova_manager, [])
            else
              (case best_target_pos self of
                 None \<Rightarrow> (Inr (0 < frames_left self), self, nova_manager, [])
               | Some target \<Rightarrow>
                   (case unit self of
                      None \<Rightarrow> (Inl AttributeError, self, nova_manager, [])
                    | Some u \<Rightarrow>
                        (Inr (0 < frames_left self), self, nova_manager,
                         if target \<noteq> position u then [Move u target] else [])))))"

subsection \<open>Launching\<close>

text \<open>
  The launcher is a unit with the list of its abilities; \<open>fire_result\<close> is what the
  simulation answers to the ability command (\<open>None\<close>: the call raises).
\<close>

record disruptor = sc2_unit +
  has_purification_nova :: bool
  fire_result :: "bool option"

definition can_use :: "disruptor \<Rightarrow> bool" where
  "can_use disruptor_unit = has_purification_nova disruptor_unit"

definition towards :: "point \<Rightarrow> point \<Rightarrow> real \<Rightarrow> point" where
  "towards p q distance =
     (if p = q then p
      else (let d = distance_to p q
            in (fst p + (fst q - fst p) / d * distance, snd p + (snd q - snd p) / d * distance)))"

definition execute :: "'m manager_class \<Rightarrow> nova \<Rightarrow> disruptor \<Rightarrow> sc2_unit list
    \<Rightarrow> sc2_unit list \<Rightarrow> 'm option \<Rightarrow> bool \<times> nova \<times> 'm option \<times> command list" where
  "execute cls self disruptor_unit enemy_units friendly_units nova_manager =
     (if \<not> can_use disruptor_unit then (False, self, nova_manager, [])
      else if nova_manager \<noteq> None \<and> get_grid self = None then (False, self, nova_manager, [])
      else
        (let exclusion_mask =
               (case nova_manager of
                  None \<Rightarrow> None
                | Some m \<Rightarrow>
                    (case get_grid self of
                       None \<Rightarrow> None
                     | Some grid \<Rightarrow>
                         (case get_exclusion_mask cls m grid of
                            None \<Rightarrow> None
                          | Some ex \<Rightarrow> Some \<lparr>shape = shape grid, cell = ex\<rparr>)));
             (target, self) = select_best_target self enemy_units friendly_units exclusion_mask
         in case target of
              None \<Rightarrow> (False, self, nova_manager, [])
            | Some t \<Rightarrow>
                (let (target_registered, nova_manager) =
                       (case nova_manager of
                          None \<Rightarrow> (False, None)
                        | Some m \<Rightarrow>
                            (case register_nova_target cls m t of
                               None \<Rightarrow> (False, Some m)
                             | Some (registered, m') \<Rightarrow> (registered, Some m')));
                     nova_speed = 5.95;
                     nova_lifetime = 2.1;
                     max_travel_distance = nova_speed * nova_lifetime;
                     launcher = sc2_unit.truncate disruptor_unit;
                     current_distance = distance_to (position disruptor_unit) t;
                     (did_fire, cmds) =
                       (if current_distance \<le> max_travel_distance then
                          (case fire_result disruptor_unit of
                             None \<Rightarrow> (False, [])
                           | Some r \<Rightarrow> (r, if r then [Fire launcher t] else []))
                        else (False, [Move launcher (towards (position disruptor_unit) t 5)]))
                 in if did_fire then
                      (True, self\<lparr>best_target_pos := Some t, frames_left := 48, unit := None\<rparr>,
                       nova_manager, cmds)
                    else
                      (False, self,
                       (case nova_manager of
                          None \<Rightarrow> None
                        | Some m \<Rightarrow>
                            if target_registered then
                              (case unregister_nova_target cls m t of
                                 None \<Rightarrow> Some m
                               | Some m' \<Rightarrow> Some m')
                            else Some m),
                       cmds))))"

section \<open>The manager\<close>

text \<open>
  The manager holds references to its novas: the same instance can be in the list
  twice, and \<open>remove\<close> takes out one occurrence of the instance it is given. The
  instances live in a store, indexed by reference.
\<close>

record store =
  objects :: "nat \<Rightarrow> nova"
  next_ref :: nat

record NovaManager =
  manager_bot :: py_value
  map_data :: py_value
  active_novas :: "nat list"

definition NovaManager_init :: "py_value \<Rightarrow> py_value \<Rightarrow> NovaManager" where
  "NovaManager_init bot_arg map_data_arg =
     \<lparr>manager_bot = bot_arg, map_data = map_data_arg, active_novas = []\<rparr>"

text \<open>
  The class has none of the members that \<open>update_target_position\<close> reaches for.
\<close>

definition NovaManager_class :: "NovaManager manager_class" where
  "NovaManager_class =
     \<lparr>nova_speed = \<lambda>m. None, current_targets = \<lambda>m. None,
      unregister_nova_target = \<lambda>m p. None, register_nova_target = \<lambda>m p. None,
      get_exclusion_mask = \<lambda>m g. None\<rparr>"

text \<open>
  What \<open>add_nova\<close> is passed: an instance that has \<open>update_info\<close>, by reference, or a
  unit of the simulation, which has no such attribute.
\<close>

datatype nova_object = Instance nat | SimUnit sc2_unit

fun has_update_info :: "nova_object \<Rightarrow> bool" where
  "has_update_info (Instance r) = True"
| "has_update_info (SimUnit u) = False"

definition add_nova :: "store \<Rightarrow> NovaManager \<Rightarrow> nova_object
    \<Rightarrow> error option \<times> store \<times> NovaManager" where
  "add_nova st self nova_arg =
     (case nova_arg of
        SimUnit u \<Rightarrow>
          (case UseDisruptorNova [IntVal 10, IntVal 5, map_data self, manager_bot self] of
             Inl e \<Rightarrow> (Some e, st, self)
           | Inr nova_instance \<Rightarrow>
               (let r = next_ref st;
                    st = st\<lparr>objects := (objects st)(r := load_info nova_instance u),
                            next_ref := Suc r\<rparr>
                in (None, st, self\<lparr>active_novas := active_novas self @ [r]\<rparr>)))
      | Instance r \<Rightarrow> (None, st, self\<lparr>active_novas := active_novas self @ [r]\<rparr>))"

text \<open>
  The loop of \<open>update\<close> over the active novas: it gives the exception that stopped it,
  if any, the store, the expired references and the commands issued. \<open>run_step\<close> is
  called without a manager.
\<close>

definition no_manager :: "unit manager_class" where
  "no_manager =
     \<lparr>nova_speed = \<lambda>m. None, current_targets = \<lambda>m. None,
      unregister_nova_target = \<lambda>m p. None, register_nova_target = \<lambda>m p. None,
      get_exclusion_mask = \<lambda>m g. None\<rparr>"

fun update_loop :: "(nat \<Rightarrow> nova) \<Rightarrow> nat list \<Rightarrow> sc2_unit list \<Rightarrow> sc2_unit list
    \<Rightarrow> nat list \<Rightarrow> command list \<Rightarrow> error option \<times> (nat \<Rightarrow> nova) \<times> nat list \<times> command list" where
  "update_loop objs [] enemy_units friendly_units expired cmds = (None, objs, expired, cmds)"
| "update_loop objs (r # rs) enemy_units friendly_units expired cmds =
     (case update_info (objs r) of
        (Some e, n) \<Rightarrow> (Some e, objs(r := n), expired, cmds)
      | (None, n) \<Rightarrow>
          (case run_step no_manager n enemy_units friendly_units None of
             (Inl e, n', m, cs) \<Rightarrow> (Some e, objs(r := n'), expired, cmds @ cs)
           | (Inr active, n', m, cs) \<Rightarrow>
               update_loop (objs(r := n')) rs enemy_units friendly_units
                 (if frames_left n' \<le> 0 then expired @ [r] else expired) (cmds @ cs)))"

definition update :: "store \<Rightarrow> NovaManager \<Rightarrow> sc2_unit list \<Rightarrow> sc2_unit list
    \<Rightarrow> error option \<times> store \<times> NovaManager \<times> command list" where
  "update st self enemy_units friendly_units =
     (case update_loop (objects st) (active_novas self) enemy_units friendly_units [] [] of
        (Some e, objs, expired, cmds) \<Rightarrow> (Some e, st\<lparr>objects := objs\<rparr>, self, cmds)
      | (None, objs, expired, cmds) \<Rightarrow>
          (None, st\<lparr>objects := objs\<rparr>,
           self\<lparr>active_novas := foldl (\<lambda>novas r. remove1 r novas) (active_novas self) expired\<rparr>,
           cmds))"

text \<open>The bot calls \<open>update\<close> once in every step; a run stops at an exception.\<close>

fun ticks :: "nat \<Rightarrow> store \<Rightarrow> NovaManager \<Rightarrow> sc2_unit list \<Rightarrow> sc2_unit list
    \<Rightarrow> error option \<times> store \<times> NovaManager" where
  "ticks 0 st self enemy_units friendly_units = (None, st, self)"
| "ticks (Suc n) st self enemy_units friendly_units =
     (case update st self enemy_units friendly_units of
        (Some e, st', self', cmds) \<Rightarrow> (Some e, st', self')
      | (None, st', self', cmds) \<Rightarrow> ticks n st' self' enemy_units friendly_units)"

text \<open>
  Modelled from the spec: the claim registry, which no class of the repository
  defines. It holds the claimed positions; a position is registered unless it is
  already claimed, unregistering releases it, the exclusion mask covers the cells
  within 5 units of a claim, and the speed of a nova is 5.95.
\<close>

definition claim_registry :: "point list manager_class" where
  "claim_registry =
     \<lparr>nova_speed = \<lambda>claims. Some 5.95,
      current_targets = \<lambda>claims. Some claims,
      unregister_nova_target = \<lambda>claims p. Some (removeAll p claims),
      register_nova_target = \<lambda>claims p.
        Some (if p \<in> set claims then (False, claims) else (True, claims @ [p])),
      get_exclusion_mask = \<lambda>claims g. Some (\<lambda>y x.
        list_ex (\<lambda>c. sqrt ((real x - fst c)\<^sup>2 + (real y - snd c)\<^sup>2) \<le> 5) claims)\<rparr>"

definition get_active_novas :: "NovaManager \<Rightarrow> nat list" where
  "get_active_novas self = active_novas self"

section \<open>Sample inputs\<close>

text \<open>
  What \<open>get_grid\<close> makes of one cell: the infinities become \<open>500\<close> and \<open>- 500\<close>,
  NaN becomes \<open>0\<close>.
\<close>

definition sanitized :: "float64 \<Rightarrow> float64" where
  "sanitized v = (case v of PInf \<Rightarrow> Fin 500 | NInf \<Rightarrow> Fin (- 500) | NaN \<Rightarrow> Fin 0 | Fin r \<Rightarrow> Fin r)"

text \<open>
  A field of 5 by 5 cells at the neutral value 200, with the value \<open>v\<close> in its centre,
  which is the only cell outside the border margin.
\<close>

definition field5 :: "real \<Rightarrow> grid" where
  "field5 v = \<lparr>shape = (5, 5), cell = \<lambda>y x. if y = 2 \<and> x = 2 then Fin v else Fin 200\<rparr>"

text \<open>One row with every kind of value.\<close>

definition special_row :: grid where
  "special_row = \<lparr>shape = (1, 4),
     cell = \<lambda>y x. if x = 0 then PInf else if x = 1 then NInf else if x = 2 then NaN else Fin 7\<rparr>"

text \<open>A mask of one cell, which excludes nothing.\<close>

definition tiny_mask :: mask where
  "tiny_mask = \<lparr>shape = (1, 1), cell = \<lambda>y x. False\<rparr>"

definition hostile_at :: "point \<Rightarrow> sc2_unit" where
  "hostile_at p = \<lparr>tag = 0, position = p, movement_speed = 0\<rparr>"

text \<open>A new instance whose mediator shows the grid \<open>g\<close>.\<close>

definition watching :: "grid \<Rightarrow> nova" where
  "watching g = init (Mediator (NdArray g)) Bot"

text \<open>The unit of a nova in flight, and an instance bound to it by \<open>load_info\<close>.\<close>

definition flying_unit :: sc2_unit where
  "flying_unit = \<lparr>tag = 7, position = (2, 2), movement_speed = 5.95\<rparr>"

definition tracked_store :: store where
  "tracked_store =
     \<lparr>objects = \<lambda>r. load_info (watching (field5 200)) flying_unit, next_ref = 1\<rparr>"

definition tracking_manager :: NovaManager where
  "tracking_manager = (NovaManager_init Bot MapData)\<lparr>active_novas := [0]\<rparr>"

text \<open>A launcher at the origin whose ability is ready and fires.\<close>

definition launcher :: disruptor where
  "launcher = \<lparr>tag = 1, position = (0, 0), movement_speed = 3.15,
     has_purification_nova = True, fire_result = Some True\<rparr>"

text \<open>
  A nova in flight with 10 frames left, whose target is \<open>(1, 1)\<close>; another nova
  claims \<open>(3, 3)\<close>.
\<close>

definition retarget_nova :: nova where
  "retarget_nova = (watching (field5 200))
     \<lparr>best_target_pos := Some (1, 1), unit := Some flying_unit, frames_left := 10\<rparr>"

text \<open>The instance as \<open>execute\<close> leaves it after a launch at the centre of the field.\<close>

definition launched_nova :: nova where
  "launched_nova = (watching (field5 300))
     \<lparr>best_target_pos := Some (2, 2), best_target_influence := Fin 300, frames_left := 48,
      unit := None\<rparr>"

section \<open>Arrays and the ingestion of the grid\<close>

lemma rows_np_where [simp]: "rows (np_where p v a) = rows a"
  by (simp add: rows_def np_where_def)
lemma cols_np_where [simp]: "cols (np_where p v a) = cols a"
  by (simp add: cols_def np_where_def)
lemma shape_np_where [simp]: "shape (np_where p v a) = shape a"
  by (simp add: np_where_def)
lemma cell_np_where [simp]: "cell (np_where p v a) y x = (if p (cell a y x) then v else cell a y x)"
  by (simp add: np_where_def)

lemma np_any_iff: "np_any p a \<longleftrightarrow> (\<exists>y<rows a. \<exists>x<cols a. p (cell a y x))"
  by (simp add: np_any_def list_ex_iff Bex_def)


lemma get_grid_cells:
  assumes "mediator self = Mediator (NdArray g)"
  shows "\<exists>g'. get_grid self = Some g' \<and> shape g' = shape g \<and>
           (\<forall>y<rows g. \<forall>x<cols g. cell g' y x = sanitized (cell g y x))"
proof -
  define g1 where "g1 = (if np_any isinf g
      then np_where isneginf (Fin (- 500)) (np_where isposinf (Fin 500) g) else g)"
  define g2 where "g2 = (if np_any isnan g1 then np_where isnan (Fin 0) g1 else g1)"
  have gg: "get_grid self = Some g2"
    using assms by (simp add: get_grid_def Let_def g1_def g2_def)
  have sh1: "shape g1 = shape g" by (simp add: g1_def)
  have sh2: "shape g2 = shape g" by (simp add: g2_def sh1)
  have r1: "rows g1 = rows g" "cols g1 = cols g" by (simp_all add: rows_def cols_def sh1)
  have c1: "cell g1 y x = (case cell g y x of PInf \<Rightarrow> Fin 500 | NInf \<Rightarrow> Fin (- 500) | v \<Rightarrow> v)"
    if "y < rows g" "x < cols g" for y x
  proof (cases "np_any isinf g")
    case True
    then show ?thesis by (cases "cell g y x") (simp_all add: g1_def)
  next
    case False
    with that have "\<not> isinf (cell g y x)" by (auto simp: np_any_iff)
    with False show ?thesis by (cases "cell g y x") (simp_all add: g1_def)
  qed
  have c2: "cell g2 y x = sanitized (cell g y x)" if "y < rows g" "x < cols g" for y x
  proof (cases "np_any isnan g1")
    case True
    then have "cell g2 y x = (if isnan (cell g1 y x) then Fin 0 else cell g1 y x)"
      by (simp add: g2_def)
    also have "\<dots> = sanitized (cell g y x)"
      unfolding c1[OF that] by (cases "cell g y x") (simp_all add: sanitized_def)
    finally show ?thesis .
  next
    case False
    with that have nn: "\<not> isnan (cell g1 y x)" by (auto simp: np_any_iff r1)
    from False have "cell g2 y x = cell g1 y x" by (simp add: g2_def)
    also have "\<dots> = sanitized (cell g y x)"
      using nn unfolding c1[OF that] by (cases "cell g y x") (simp_all add: sanitized_def)
    finally show ?thesis .
  qed
  show ?thesis using gg sh2 c2 by blast
qed


text \<open>
  C4, as amended. The grid that \<open>get_grid\<close> returns has the shape of the collaborator's
  grid; inside it every \<open>+inf\<close> cell is 500, every \<open>-inf\<close> cell is -500, every NaN cell
  is 0 (not a value of magnitude 500), and every finite cell is unchanged, so that all
  cells are finite.
\<close>

theorem get_grid_sanitizes:
  assumes "mediator self = Mediator (NdArray g)"
  shows "\<exists>g'. get_grid self = Some g' \<and> shape g' = shape g \<and>
           (\<forall>y<rows g. \<forall>x<cols g.
              (cell g y x = PInf \<longrightarrow> cell g' y x = Fin 500) \<and>
              (cell g y x = NInf \<longrightarrow> cell g' y x = Fin (- 500)) \<and>
              (cell g y x = NaN \<longrightarrow> cell g' y x = Fin 0) \<and>
              (\<forall>r. cell g y x = Fin r \<longrightarrow> cell g' y x = Fin r) \<and>
              isfinite (cell g' y x))"
proof -
  from get_grid_cells[OF assms] obtain g' where g': "get_grid self = Some g'"
    "shape g' = shape g" "\<forall>y<rows g. \<forall>x<cols g. cell g' y x = sanitized (cell g y x)"
    by blast
  have "(cell g y x = PInf \<longrightarrow> sanitized (cell g y x) = Fin 500) \<and>
        (cell g y x = NInf \<longrightarrow> sanitized (cell g y x) = Fin (- 500)) \<and>
        (cell g y x = NaN \<longrightarrow> sanitized (cell g y x) = Fin 0) \<and>
        (\<forall>r. cell g y x = Fin r \<longrightarrow> sanitized (cell g y x) = Fin r) \<and>
        isfinite (sanitized (cell g y x))" for y x
    by (cases "cell g y x") (simp_all add: sanitized_def)
  with g' show ?thesis by auto
qed

lemma shape_special_row: "rows special_row = 1" "cols special_row = 4"
  by (simp_all add: special_row_def rows_def cols_def)

lemma mediator_watching: "mediator (watching g) = Mediator (NdArray g)"
  by (simp add: watching_def init_def)

theorem get_grid_sanitizes_witness:
  "\<exists>g'. get_grid (watching special_row) = Some g' \<and> cell g' 0 0 = Fin 500 \<and>
     cell g' 0 1 = Fin (- 500) \<and> cell g' 0 2 = Fin 0 \<and> cell g' 0 3 = Fin 7"
proof -
  from get_grid_sanitizes[OF mediator_watching, of special_row]
  obtain g' where g': "get_grid (watching special_row) = Some g'"
    and cells: "\<forall>y<rows special_row. \<forall>x<cols special_row.
      (cell special_row y x = PInf \<longrightarrow> cell g' y x = Fin 500) \<and>
      (cell special_row y x = NInf \<longrightarrow> cell g' y x = Fin (- 500)) \<and>
      (cell special_row y x = NaN \<longrightarrow> cell g' y x = Fin 0) \<and>
      (\<forall>r. cell special_row y x = Fin r \<longrightarrow> cell g' y x = Fin r) \<and>
      isfinite (cell g' y x)"
    by blast
  have "cell special_row 0 0 = PInf" "cell special_row 0 1 = NInf"
    "cell special_row 0 2 = NaN" "cell special_row 0 3 = Fin 7"
    by (simp_all add: special_row_def)
  moreover have "(0::nat) < rows special_row" "(0::nat) < cols special_row"
    "(1::nat) < cols special_row" "(2::nat) < cols special_row" "(3::nat) < cols special_row"
    by (simp_all add: shape_special_row)
  ultimately have "cell g' 0 0 = Fin 500" "cell g' 0 1 = Fin (- 500)" "cell g' 0 2 = Fin 0"
    "cell g' 0 3 = Fin 7"
    using cells by blast+
  with g' show ?thesis by blast
qed

text \<open>
  The NaN cell of the sample row comes back as 0, which has not the magnitude 500.
\<close>

lemma cells_special_row:
  "cell special_row y 0 = PInf" "cell special_row y 1 = NInf" "cell special_row y 2 = NaN"
  "cell special_row y 3 = Fin 7"
  by (simp_all add: special_row_def)

lemma upt4: "[0..<4] = [0, 1, 2, 3]"
  by code_simp

lemma upt1: "[0..<1] = [0]"
  by code_simp

lemma get_grid_special_row:
  "get_grid (watching special_row) =
     Some (np_where isnan (Fin 0)
            (np_where isneginf (Fin (- 500)) (np_where isposinf (Fin 500) special_row)))"
  by (simp add: get_grid_def mediator_watching np_any_def shape_special_row upt1 upt4
      cells_special_row Let_def)

theorem nan_sentinel_counterexample:
  "map_option (\<lambda>g'. cell g' 0 2) (get_grid (watching special_row)) = Some (Fin 0)
   \<and> cell special_row 0 2 = NaN \<and> Fin 0 \<noteq> Fin 500 \<and> Fin 0 \<noteq> Fin (- 500)"
  by (simp add: get_grid_special_row cells_special_row)

section \<open>Properties of target selection\<close>

lemma shape_boost [simp]: "shape (boost_enemies es g) = shape g"
  by (simp add: boost_enemies_def)
lemma shape_penalize [simp]: "shape (penalize_friendlies fs g) = shape g"
  by (simp add: penalize_friendlies_def)
lemma shape_mask_edges [simp]: "shape (mask_edges g) = shape g"
  by (simp add: mask_edges_def)
lemma shape_apply_exclusion [simp]: "shape (apply_exclusion m g) = shape g"
  by (simp add: apply_exclusion_def)
lemma cell_mask_edges: "cell (mask_edges g) y x = (if on_edge g y x then NInf else cell g y x)"
  by (simp add: mask_edges_def)
lemma on_edge_shape: "shape g = shape g' \<Longrightarrow> on_edge g y x = on_edge g' y x"
  by (simp add: on_edge_def rows_def cols_def)

lemma within_blast_radius: "(sqrt a \<le> nova_radius) = (a \<le> 9 / 4)"
proof -
  have "sqrt a \<le> sqrt (9/4) \<longleftrightarrow> a \<le> 9/4" by (rule real_sqrt_le_iff)
  moreover have "sqrt (9/4) = 3/2" by (simp add: real_sqrt_divide)
  ultimately show ?thesis by (simp add: nova_radius_def)
qed

lemma upt5: "[0..<5] = [0, 1, 2, 3, 4]"
  by code_simp

lemma upt25: "[0..<25] = [0, 1, 2, 3, 4, 5, 6, 7, 8, 9, 10, 11, 12, 13, 14, 15, 16, 17, 18,
    19, 20, 21, 22, 23, 24]"
  by code_simp

lemma get_grid_field5: "get_grid (watching (field5 v)) = Some (field5 v)"
  by (simp add: get_grid_def watching_def init_def np_any_def field5_def upt5 rows_def cols_def)

lemma flat_field5:
  "flat (mask_edges (penalize_friendlies [] (boost_enemies [hostile_at (0, 0)]
      (np_where isneginf (Fin (- 500)) (np_where isposinf (Fin 500) (field5 v))))))
   = [NInf, NInf, NInf, NInf, NInf, NInf, NInf, NInf, NInf, NInf, NInf, NInf, Fin v,
      NInf, NInf, NInf, NInf, NInf, NInf, NInf, NInf, NInf, NInf, NInf, NInf]"
  by (simp add: flat_def rows_def cols_def mask_edges_def penalize_friendlies_def
      boost_enemies_def np_where_def field5_def upt25 on_edge_def edge_width_def
      near_unit_def grid_distance_def within_blast_radius hostile_at_def grid_coord_def
      py_int_def)

lemma cell_field5:
  "cell (mask_edges (penalize_friendlies [] (boost_enemies [hostile_at (0, 0)]
      (np_where isneginf (Fin (- 500)) (np_where isposinf (Fin 500) (field5 v)))))) 2 2 = Fin v"
  by (simp add: rows_def cols_def mask_edges_def penalize_friendlies_def
      boost_enemies_def np_where_def field5_def on_edge_def edge_width_def
      near_unit_def grid_distance_def within_blast_radius hostile_at_def grid_coord_def
      py_int_def)

lemma distance_le: "distance_to p q \<le> nova_radius \<longleftrightarrow> (fst p - fst q)\<^sup>2 + (snd p - snd q)\<^sup>2 \<le> 9 / 4"
  by (simp add: distance_to_def within_blast_radius)

lemma py_range_5: "py_range 5 8 = [0]"
  by (simp add: py_range_def)

lemma shape_field5: "rows (field5 v) = 5" "cols (field5 v) = 5" "shape (field5 v) = (5, 5)"
  by (simp_all add: field5_def rows_def cols_def)

lemma watching_fields:
  "unit (watching g) = None" "mediator (watching g) = Mediator (NdArray g)"
  "should_debug_visuals (watching g) = False" "best_target_pos (watching g) = None"
  "frames_left (watching g) = 48"
  by (simp_all add: watching_def init_def)

lemma position_field5:
  "select_target_position_based (watching (field5 v)) [hostile_at (0, 0)] [] None =
     (Some (0, 0), (watching (field5 v))\<lparr>best_target_pos := Some (0, 0), best_target_score := Some 150\<rparr>)"
  by (simp add: select_target_position_based_def get_grid_field5 candidate_positions_def
      py_range_5 scored_def excluded_def units_hit_def score_of_def distance_le hostile_at_def
      shape_field5)

lemma grid_tier_field5:
  "grid_tier (watching (field5 v)) [hostile_at (0, 0)] [] None 
      (np_where isneginf (Fin (- 500)) (np_where isposinf (Fin 500) (field5 v))) =
     (if 210 < v \<and> v < 600
      then (Some (2, 2), (watching (field5 v))\<lparr>best_target_pos := Some (2, 2), best_target_influence := Fin v\<rparr>)
      else select_target_position_based (watching (field5 v)) [hostile_at (0, 0)] [] None)"
  unfolding grid_tier_def Let_def np_argmax_def flat_field5
  by (simp add: unravel_index_def cols_def shape_field5 cell_field5 accepts_def
       watching_fields)

lemma select_field5:
  "fst (select_best_target (watching (field5 v)) [hostile_at (0, 0)] [] None) =
     (if 210 < v \<and> v < 600 then Some (2, 2) else Some (0, 0))"
  by (simp add: select_best_target_def get_grid_field5 shape_field5 grid_tier_field5 position_field5)


lemma position_field5_tiny_mask:
  "fst (select_target_position_based (watching (field5 v)) [hostile_at (0, 0)] []
     (Some tiny_mask)) = Some (0, 0)"
  by (simp add: select_target_position_based_def get_grid_field5 candidate_positions_def
      py_range_5 scored_def excluded_def units_hit_def score_of_def distance_le hostile_at_def
      shape_field5 np_get_def axis_index_def grid_coord_def py_int_def tiny_mask_def
      rows_def cols_def)

lemma accepts_not_NInf: "accepts v \<Longrightarrow> v \<noteq> NInf"
  by (auto simp: accepts_def)

lemma grid_tier_inside:
  assumes "grid_tier self es fs m wg = (Some p, self')"
  shows "select_target_position_based self es fs m = (Some p, self') \<or>
         (\<exists>x y. p = (real x, real y) \<and> \<not> on_edge wg y x)"
proof -
  define W where "W = penalize_friendlies fs (boost_enemies es wg)"
  have sh: "shape W = shape wg" by (simp add: W_def)
  show ?thesis
  proof (cases "np_argmax (mask_edges W)")
    case None
    with assms show ?thesis by (simp add: grid_tier_def W_def)
  next
    case (Some i)
    obtain y x where yx: "unravel_index i (mask_edges W) = (y, x)" by fastforce
    show ?thesis
    proof (cases "accepts (cell (mask_edges W) y x)")
      case False
      with assms Some yx show ?thesis by (simp add: grid_tier_def W_def[symmetric])
    next
      case True
      with assms Some yx have p: "p = (real x, real y)"
        by (auto simp: grid_tier_def W_def[symmetric] Let_def split: if_splits)
      from True have "cell (mask_edges W) y x \<noteq> NInf" by (rule accepts_not_NInf)
      then have "\<not> on_edge W y x" by (auto simp: cell_mask_edges)
      then have "\<not> on_edge wg y x" using on_edge_shape[OF sh] by simp
      with p show ?thesis by blast
    qed
  qed
qed

lemma not_on_edge_iff:
  "\<not> on_edge g y x \<longleftrightarrow> 2 \<le> y \<and> y + 2 < rows g \<and> 2 \<le> x \<and> x + 2 < cols g"
  by (auto simp: on_edge_def edge_width_def)

lemma position_based_no_enemies:
  "select_target_position_based self [] fs m = (None, self)"
  by (simp add: select_target_position_based_def scored_def units_hit_def Let_def split: prod.splits)

lemma mismatched_mask:
  assumes "get_grid self = Some g" and "shape m \<noteq> shape g" and "rows g * cols g \<noteq> 0"
  shows "select_best_target self es fs (Some m) = select_target_position_based self es fs (Some m)"
proof (cases "es = []")
  case True
  then show ?thesis by (simp add: select_best_target_def position_based_no_enemies)
next
  case False
  with assms show ?thesis by (simp add: select_best_target_def Let_def)
qed

lemma shape_tiny_mask: "shape tiny_mask \<noteq> shape (field5 v)"
  by (simp add: tiny_mask_def field5_def)

text \<open>
  C8. With an empty hostile list \<open>select_best_target\<close> returns none at once: the
  instance is left as it was and no tier is evaluated.
\<close>

theorem select_best_target_no_enemies:
  "select_best_target self [] friendly_units exclusion_mask = (None, self)"
  by (simp add: select_best_target_def)

text \<open>
  C7. The grid tier accepts its best cell exactly when the value lies strictly between
  210 and 600. On the sample field the best cell is the centre, of value \<open>v\<close>: the
  selector returns the centre for 210.01 and 599.99, and for every \<open>v\<close> with
  \<open>210 < v < 600\<close>; for 210 and 600, and for every other \<open>v\<close>, the grid tier rejects it
  and the result is the hostile position that the position tier finds.
\<close>

theorem grid_tier_acceptance_strict:
  "fst (select_best_target (watching (field5 210)) [hostile_at (0, 0)] [] None) = Some (0, 0)
   \<and> fst (select_best_target (watching (field5 210.01)) [hostile_at (0, 0)] [] None) = Some (2, 2)
   \<and> fst (select_best_target (watching (field5 600)) [hostile_at (0, 0)] [] None) = Some (0, 0)
   \<and> fst (select_best_target (watching (field5 599.99)) [hostile_at (0, 0)] [] None) = Some (2, 2)
   \<and> (\<forall>v. (fst (select_best_target (watching (field5 v)) [hostile_at (0, 0)] [] None) = Some (2, 2))
          = (210 < v \<and> v < 600))
   \<and> (\<forall>v. accepts (Fin v) = (210 < v \<and> v < 600))"
  by (simp add: select_field5 accepts_def)

text \<open>
  C5, as amended. A target that the grid tier accepts is never within the margin of
  2 cells: whenever \<open>select_best_target\<close> returns a position, either the position tier
  returned it (and it may lie anywhere, also in the margin), or it is a cell \<open>(x, y)\<close>
  of the grid with \<open>2 \<le> x < cols - 2\<close> and \<open>2 \<le> y < rows - 2\<close>.
\<close>

theorem grid_tier_target_off_border:
  assumes "select_best_target self enemy_units friendly_units exclusion_mask = (Some p, self')"
    and "get_grid self = Some g"
  shows "select_target_position_based self enemy_units friendly_units exclusion_mask
           = (Some p, self') \<or>
         (\<exists>x y. p = (real x, real y) \<and> 2 \<le> x \<and> x + 2 < cols g \<and> 2 \<le> y \<and> y + 2 < rows g)"
proof -
  define g' where "g' = np_where isneginf (Fin (- 500)) (np_where isposinf (Fin 500) g)"
  have sh: "shape g' = shape g" by (simp add: g'_def)
  from assms have ne: "enemy_units \<noteq> []" "rows g' * cols g' \<noteq> 0"
    by (auto simp: select_best_target_def g'_def Let_def split: if_splits)
  consider
    (pos) "select_best_target self enemy_units friendly_units exclusion_mask =
           select_target_position_based self enemy_units friendly_units exclusion_mask"
  | (grid) wg where
      "select_best_target self enemy_units friendly_units exclusion_mask =
       grid_tier self enemy_units friendly_units exclusion_mask wg"
      and "shape wg = shape g"
  proof (cases exclusion_mask)
    case None
    with ne assms(2)
    have "select_best_target self enemy_units friendly_units exclusion_mask =
          grid_tier self enemy_units friendly_units exclusion_mask g'"
      by (simp add: select_best_target_def g'_def Let_def)
    from this sh show ?thesis by (rule that(2))
  next
    case (Some mk)
    show ?thesis
    proof (cases "shape mk = shape g'")
      case True
      with Some ne assms(2)
      have "select_best_target self enemy_units friendly_units exclusion_mask =
            grid_tier self enemy_units friendly_units exclusion_mask (apply_exclusion mk g')"
        by (simp add: select_best_target_def g'_def Let_def)
      moreover have "shape (apply_exclusion mk g') = shape g" by (simp add: sh)
      ultimately show ?thesis by (rule that(2))
    next
      case False
      with Some ne assms(2)
      have "select_best_target self enemy_units friendly_units exclusion_mask =
            select_target_position_based self enemy_units friendly_units exclusion_mask"
        by (simp add: select_best_target_def g'_def Let_def)
      then show ?thesis by (rule that(1))
    qed
  qed
  then show ?thesis
  proof cases
    case pos
    with assms(1) show ?thesis by simp
  next
    case (grid wg)
    with assms(1)
    have "grid_tier self enemy_units friendly_units exclusion_mask wg = (Some p, self')"
      by simp
    from grid_tier_inside[OF this] show ?thesis
    proof
      assume "select_target_position_based self enemy_units friendly_units exclusion_mask
              = (Some p, self')"
      then show ?thesis by simp
    next
      assume "\<exists>x y. p = (real x, real y) \<and> \<not> on_edge wg y x"
      then obtain x y where "p = (real x, real y)" "\<not> on_edge wg y x" by blast
      moreover from this(2) have "\<not> on_edge g y x" using on_edge_shape[OF grid(2)] by simp
      ultimately show ?thesis by (auto simp: not_on_edge_iff)
    qed
  qed
qed

theorem grid_tier_target_off_border_witness:
  "select_best_target (watching (field5 300)) [hostile_at (0, 0)] [] None =
     (Some (2, 2), (watching (field5 300))\<lparr>best_target_pos := Some (2, 2),
                                            best_target_influence := Fin 300\<rparr>)
   \<and> get_grid (watching (field5 300)) = Some (field5 300)
   \<and> (select_target_position_based (watching (field5 300)) [hostile_at (0, 0)] [] None =
        (Some (2, 2), (watching (field5 300))\<lparr>best_target_pos := Some (2, 2),
                                               best_target_influence := Fin 300\<rparr>)
      \<or> (\<exists>x y. (2, 2) = (real x, real y) \<and> 2 \<le> x \<and> x + 2 < cols (field5 300) \<and> 2 \<le> y
             \<and> y + 2 < rows (field5 300)))"
proof -
  have sel: "select_best_target (watching (field5 300)) [hostile_at (0, 0)] [] None =
     (Some (2, 2), (watching (field5 300))\<lparr>best_target_pos := Some (2, 2),
                                            best_target_influence := Fin 300\<rparr>)"
    by (simp add: select_best_target_def get_grid_field5 shape_field5 grid_tier_field5)
  from grid_tier_target_off_border[OF sel get_grid_field5] sel get_grid_field5
  show ?thesis by simp
qed

text \<open>
  On the neutral field the grid tier finds nothing and the position tier returns the
  hostile position \<open>(0, 0)\<close>, a corner of the grid.
\<close>

theorem border_target_counterexample:
  "fst (select_best_target (watching (field5 200)) [hostile_at (0, 0)] [] None) = Some (0, 0)
   \<and> on_edge (field5 200) 0 0"
  by (simp add: select_field5 on_edge_def edge_width_def)

text \<open>
  C3, as amended. With an exclusion mask whose shape differs from the shape of the grid
  (a grid of at least one cell), \<open>select_best_target\<close> skips the grid tier and returns
  what the position tier returns for that same mask. The result is a value, not an
  exception; it need not be the result of the call without a mask, which tries the grid
  tier first.
\<close>

theorem mismatched_mask_uses_position_tier:
  assumes "get_grid self = Some g" and "shape m \<noteq> shape g" and "rows g * cols g \<noteq> 0"
  shows "select_best_target self enemy_units friendly_units (Some m) =
         select_target_position_based self enemy_units friendly_units (Some m)"
  using assms by (rule mismatched_mask)

theorem mismatched_mask_uses_position_tier_witness:
  "get_grid (watching (field5 300)) = Some (field5 300)
   \<and> shape tiny_mask \<noteq> shape (field5 300)
   \<and> rows (field5 300) * cols (field5 300) \<noteq> 0
   \<and> select_best_target (watching (field5 300)) [hostile_at (0, 0)] [] (Some tiny_mask) =
       select_target_position_based (watching (field5 300)) [hostile_at (0, 0)] []
         (Some tiny_mask)"
proof -
  have ne: "rows (field5 300) * cols (field5 300) \<noteq> 0" by (simp add: shape_field5)
  from mismatched_mask_uses_position_tier[OF get_grid_field5 shape_tiny_mask ne]
    get_grid_field5 shape_tiny_mask ne
  show ?thesis by simp
qed

text \<open>
  With the mask of one cell the selector returns the hostile position, without a mask
  the centre of the field.
\<close>

theorem mismatched_mask_counterexample:
  "fst (select_best_target (watching (field5 300)) [hostile_at (0, 0)] [] (Some tiny_mask))
     = Some (0, 0)
   \<and> fst (select_best_target (watching (field5 300)) [hostile_at (0, 0)] [] None) = Some (2, 2)
   \<and> shape tiny_mask \<noteq> shape (field5 300)"
proof -
  have ne: "rows (field5 300) * cols (field5 300) \<noteq> 0" by (simp add: shape_field5)
  have "select_best_target (watching (field5 300)) [hostile_at (0, 0)] [] (Some tiny_mask) =
        select_target_position_based (watching (field5 300)) [hostile_at (0, 0)] []
          (Some tiny_mask)"
    by (rule mismatched_mask[OF get_grid_field5 shape_tiny_mask ne])
  then have "fst (select_best_target (watching (field5 300)) [hostile_at (0, 0)] []
               (Some tiny_mask)) = Some (0, 0)"
    by (simp only: position_field5_tiny_mask)
  moreover
  have "fst (select_best_target (watching (field5 300)) [hostile_at (0, 0)] [] None)
        = Some (2, 2)"
    by (simp add: select_field5)
  ultimately show ?thesis using shape_tiny_mask by blast
qed

section \<open>Properties of retargeting\<close>

text \<open>
  C9. With a manager of the class \<open>NovaManager\<close>, \<open>update_target_position\<close> returns
  False and leaves the instance and the manager as they were, whatever the instance
  holds: for a bound nova with a target and at least 5 frames left, the first member
  it reaches for, \<open>nova_speed\<close>, is missing, and the AttributeError is caught.
\<close>

theorem update_target_position_NovaManager:
  "update_target_position NovaManager_class self enemy_units friendly_units nova_manager =
     (False, self, nova_manager)"
  by (simp add: update_target_position_def NovaManager_class_def split: option.splits)

text \<open>
  When the search of the grid finds a candidate, the comparison replaces the target
  only under both guards.
\<close>

lemma compare_and_switch_guarded:
  assumes "compare_and_switch cls nova_manager self grid t v = (b, self', nova_manager')"
    and "best_target_pos self' \<noteq> best_target_pos self"
  shows "\<exists>own cur new. best_target_pos self = Some own \<and> influence_at grid own = Some cur
           \<and> best_target_influence self' = new
           \<and> fless (Fin 0.15) (improvement_of cur new)
           \<and> best_target_pos self' = Some t
           \<and> (\<forall>ts. current_targets cls nova_manager = Some ts \<longrightarrow> \<not> too_close_to t own ts)"
  using assms
  by (auto simp: compare_and_switch_def Let_def too_close_to_def
      split: option.splits if_splits prod.splits)

lemma sqrt_le_5: "(sqrt a \<le> 5) = (a \<le> 25)"
proof -
  have "sqrt a \<le> sqrt 25 \<longleftrightarrow> a \<le> 25" by (rule real_sqrt_le_iff)
  moreover have "sqrt 25 = 5" using real_sqrt_abs[of 5] by simp
  ultimately show ?thesis by simp
qed

lemma near_claim: "y < 5 \<Longrightarrow> x < 5 \<Longrightarrow> sqrt ((real x - 3)\<^sup>2 + (real y - 3)\<^sup>2) \<le> 5"
proof -
  assume a: "y < 5" "x < 5"
  have sq: "(real n - 3)\<^sup>2 \<le> 9" if "n < 5" for n :: nat
  proof -
    have "\<bar>real n - 3\<bar> \<le> 3" using that by simp
    then show ?thesis using power2_le_iff_abs_le[of 3 "real n - 3"] by simp
  qed
  from sq[OF a(1)] sq[OF a(2)] show ?thesis by (simp add: sqrt_le_5)
qed

lemma get_grid_mediator: "mediator a = mediator b \<Longrightarrow> get_grid a = get_grid b"
  by (simp add: get_grid_def)

lemma retarget_nova_fields:
  "best_target_pos retarget_nova = Some (1, 1)" "unit retarget_nova = Some flying_unit"
  "frames_left retarget_nova = 10" "should_debug_visuals retarget_nova = False"
  "mediator retarget_nova = Mediator (NdArray (field5 200))"
  by (simp_all add: retarget_nova_def watching_fields)

lemma get_grid_retarget_nova: "get_grid retarget_nova = Some (field5 200)"
  using get_grid_mediator[of retarget_nova "watching (field5 200)"]
  by (simp add: retarget_nova_fields watching_fields get_grid_field5)

lemma shape_combined:
  "shape (combined_mask_of claim_registry claims g oor) = shape oor"
  by (simp add: combined_mask_of_def claim_registry_def logical_or_def)

lemma cell_combined:
  "y < 5 \<Longrightarrow> x < 5 \<Longrightarrow> cell (combined_mask_of claim_registry [(3, 3)] g oor) y x"
  by (simp add: combined_mask_of_def claim_registry_def logical_or_def near_claim)

lemma search_all_claimed:
  assumes "shape M = (5, 5)" "\<And>y x. y < 5 \<Longrightarrow> x < 5 \<Longrightarrow> cell M y x"
  shows "search_grid cls mgr self g M = None"
proof -
  have "\<not> np_any (\<lambda>b. \<not> b) M"
    using assms by (auto simp: np_any_iff rows_def cols_def)
  then show ?thesis by (simp add: search_grid_def)
qed

lemma working_all_claimed:
  assumes "shape g = (5, 5)" "\<And>y x. y < 5 \<Longrightarrow> x < 5 \<Longrightarrow> cell M y x"
  shows "cell (mask_edges (penalize_friendlies [] (boost_enemies es (apply_exclusion M g)))) y x = NInf"
proof (cases "y < 5 \<and> x < 5")
  case True
  with assms(2) have "cell M y x" by simp
  then show ?thesis
    by (simp add: mask_edges_def penalize_friendlies_def boost_enemies_def apply_exclusion_def)
next
  case False
  with assms(1) have "on_edge (penalize_friendlies [] (boost_enemies es (apply_exclusion M g))) y x"
    by (auto simp: on_edge_def rows_def cols_def edge_width_def)
  then show ?thesis by (simp add: cell_mask_edges)
qed

lemma grid_tier_rejects:
  assumes "\<And>y x. \<not> accepts (cell (mask_edges (penalize_friendlies fs (boost_enemies es wg))) y x)"
  shows "grid_tier self es fs m wg = select_target_position_based self es fs m"
  using assms by (simp add: grid_tier_def Let_def split: option.splits prod.splits)

lemma position_all_claimed:
  assumes "shape M = (5, 5)" "\<And>y x. y < 5 \<Longrightarrow> x < 5 \<Longrightarrow> cell M y x"
  shows "select_target_position_based retarget_nova [hostile_at (4, 4)] [] (Some M) =
    (Some (4, 4), retarget_nova\<lparr>best_target_pos := Some (4, 4), best_target_score := Some (- 1)\<rparr>)"
  using assms
  by (simp add: select_target_position_based_def get_grid_retarget_nova candidate_positions_def
      py_range_5 scored_def excluded_def shape_field5 np_get_def axis_index_def grid_coord_def
      py_int_def rows_def cols_def hostile_at_def retarget_nova_fields Let_def)

lemma select_all_claimed:
  assumes "shape M = (5, 5)" "\<And>y x. y < 5 \<Longrightarrow> x < 5 \<Longrightarrow> cell M y x"
  shows "select_best_target retarget_nova [hostile_at (4, 4)] [] (Some M) =
    (Some (4, 4), retarget_nova\<lparr>best_target_pos := Some (4, 4), best_target_score := Some (- 1)\<rparr>)"
proof -
  let ?g = "np_where isneginf (Fin (- 500)) (np_where isposinf (Fin 500) (field5 200))"
  have sh: "shape ?g = (5, 5)" by (simp add: shape_field5)
  have "grid_tier retarget_nova [hostile_at (4, 4)] [] (Some M) (apply_exclusion M ?g) =
     select_target_position_based retarget_nova [hostile_at (4, 4)] [] (Some M)"
    by (rule grid_tier_rejects) (simp add: working_all_claimed[OF sh assms(2)] accepts_def)
  then show ?thesis
    using assms(1)
    by (simp add: select_best_target_def get_grid_retarget_nova shape_field5
        position_all_claimed[OF assms])
qed

lemma cell_field5_200: "cell (field5 200) y x = Fin 200"
  by (simp add: field5_def)

lemma retarget_all_claimed:
  assumes "shape M = (5, 5)" "\<And>y x. y < 5 \<Longrightarrow> x < 5 \<Longrightarrow> cell M y x"
  shows "retarget claim_registry retarget_nova [hostile_at (4, 4)] [] [(3, 3)] True (field5 200) M =
     (False, retarget_nova\<lparr>best_target_pos := Some (4, 4), best_target_score := Some (- 1),
        best_target_influence := Fin 200\<rparr>, [(3, 3), (4, 4)])"
  by (simp add: retarget_def search_all_claimed[OF assms] select_all_claimed[OF assms]
      claim_registry_def compare_and_switch_def influence_at_def np_get_def axis_index_def
      grid_coord_def py_int_def shape_field5 cell_field5_200 replace_inf_def improvement_of_def
      fsub_def)

text \<open>
  C6. The nova targets \<open>(1, 1)\<close> and has 10 frames left; another nova claims
  \<open>(3, 3)\<close>, which excludes every cell of the field, and a hostile stands at
  \<open>(4, 4)\<close>. The search of the grid finds no valid cell, the fallback
  \<open>select_best_target\<close> stores the hostile position as the target of the instance, and
  the comparison then sees no improvement and returns False. The target has changed
  all the same, to a position less than 5 units from the other claim and with an
  improvement of 0.
\<close>

theorem retarget_switches_in_fallback:
  "update_target_position claim_registry retarget_nova [hostile_at (4, 4)] []
       [(1, 1), (3, 3)] =
     (False,
      retarget_nova\<lparr>best_target_pos := Some (4, 4), best_target_score := Some (- 1),
                     best_target_influence := Fin 200\<rparr>,
      [(3, 3), (4, 4)])
   \<and> best_target_pos retarget_nova = Some (1, 1)
   \<and> distance_to (4, 4) (3, 3) < 5
   \<and> \<not> fless (Fin 0.15) (improvement_of (Fin 200) (Fin 200))"
proof -
  have r: "retarget claim_registry retarget_nova [hostile_at (4, 4)] [] [(3, 3)] True (field5 200)
      (combined_mask_of claim_registry [(3, 3)] (field5 200)
         (out_of_reach_mask (field5 200) p d)) =
     (False, retarget_nova\<lparr>best_target_pos := Some (4, 4), best_target_score := Some (- 1),
        best_target_influence := Fin 200\<rparr>, [(3, 3), (4, 4)])" for p d
    by (rule retarget_all_claimed)
       (simp_all add: shape_combined out_of_reach_mask_def shape_field5 cell_combined)
  have cr: "nova_speed claim_registry m = Some 5.95"
    "unregister_nova_target claim_registry m q = Some (removeAll q m)" for m q
    by (simp_all add: claim_registry_def)
  have upd: "update_target_position claim_registry retarget_nova [hostile_at (4, 4)] []
       [(1, 1), (3, 3)] =
     (False,
      retarget_nova\<lparr>best_target_pos := Some (4, 4), best_target_score := Some (- 1),
                     best_target_influence := Fin 200\<rparr>,
      [(3, 3), (4, 4)])"
    by (simp add: update_target_position_def retarget_nova_fields get_grid_retarget_nova cr r)
  have "sqrt 2 < 5" by (rule real_less_lsqrt) simp_all
  then have d: "distance_to (4, 4) (3, 3) < 5" by (simp add: distance_to_def)
  have i: "\<not> fless (Fin 0.15) (improvement_of (Fin 200) (Fin 200))"
    by (simp add: improvement_of_def fsub_def)
  from upd d i show ?thesis by (simp add: retarget_nova_fields)
qed

section \<open>Properties of the life of a nova\<close>

lemma run_step_unbound:
  assumes "best_target_pos self = Some t" "unit self = None" "0 < frames_left self"
  shows "fst (run_step cls self es fs mgr) = Inl AttributeError"
proof -
  have u: "update_target_position cls (self\<lparr>frames_left := frames_left self - 1\<rparr>) es fs m
      = (False, self\<lparr>frames_left := frames_left self - 1\<rparr>, m)" for m
    using assms by (simp add: update_target_position_def)
  show ?thesis
    using assms by (cases mgr) (simp_all add: run_step_def u Let_def)
qed

lemma select_field5_300:
  "select_best_target (watching (field5 300)) [hostile_at (0, 0)] [] None =
     (Some (2, 2), (watching (field5 300))\<lparr>best_target_pos := Some (2, 2),
                                            best_target_influence := Fin 300\<rparr>)"
  by (simp add: select_best_target_def get_grid_field5 shape_field5 grid_tier_field5)

lemma launcher_in_range: "distance_to (position launcher) (2, 2) \<le> 5.95 * 2.1"
proof -
  have "distance_to (position launcher) (2, 2) = sqrt 8"
    by (simp add: distance_to_def launcher_def)
  also have "sqrt 8 \<le> 3" by (rule real_le_lsqrt) simp_all
  finally show ?thesis by simp
qed

lemma execute_launch:
  "execute no_manager (watching (field5 300)) launcher [hostile_at (0, 0)] [] None =
     (True, launched_nova, None, [Fire (sc2_unit.truncate launcher) (2, 2)])"
  using launcher_in_range
  by (simp add: execute_def can_use_def select_field5_300 launched_nova_def Let_def)
     (simp add: launcher_def)

lemma launched_fields:
  "unit launched_nova = None" "best_target_pos launched_nova = Some (2, 2)"
  "frames_left launched_nova = 48" "influence_grid launched_nova = None"
  by (simp_all add: launched_nova_def watching_def init_def)

lemma step_launched:
  "run_step no_manager launched_nova [hostile_at (0, 0)] [] None =
     (Inl AttributeError, launched_nova\<lparr>frames_left := 47\<rparr>, None, [])"
  by (simp add: run_step_def launched_fields Let_def)

text \<open>
  C2. A launch leaves the instance with a target and without a unit. Its next step
  counts the tick and issues no command, but it does not complete: the comparison of
  the target with \<open>self.unit.position\<close> raises AttributeError.
\<close>

theorem unbound_nova_step_raises:
  "execute no_manager (watching (field5 300)) launcher [hostile_at (0, 0)] [] None =
     (True, launched_nova, None, [Fire (sc2_unit.truncate launcher) (2, 2)])
   \<and> unit launched_nova = None
   \<and> run_step no_manager launched_nova [hostile_at (0, 0)] [] None =
       (Inl AttributeError, launched_nova\<lparr>frames_left := 47\<rparr>, None, [])"
  by (simp add: execute_launch step_launched launched_fields)

section \<open>Properties of the manager\<close>

text \<open>
  C10. For an object without \<open>update_info\<close>, \<open>add_nova\<close> raises TypeError (the
  constructor is called with four arguments and takes two) and leaves the list of
  active novas, and everything else, unchanged.
\<close>

theorem add_nova_raises_TypeError:
  "\<not> has_update_info nova_arg \<Longrightarrow> add_nova st self nova_arg = (Some TypeError, st, self)"
  by (cases nova_arg) (simp_all add: add_nova_def)

theorem add_nova_raises_TypeError_witness:
  "\<not> has_update_info (SimUnit flying_unit)
   \<and> add_nova tracked_store tracking_manager (SimUnit flying_unit) =
       (Some TypeError, tracked_store, tracking_manager)"
  using add_nova_raises_TypeError[of "SimUnit flying_unit" tracked_store tracking_manager]
  by simp

lemma update_loop_one:
  assumes "unit (objs r) = Some u" "influence_grid (objs r) = None" "2 \<le> frames_left (objs r)"
  shows "\<exists>n' cs. update_loop objs [r] es fs [] [] =
           (None, objs(r := n'), (if frames_left (objs r) \<le> 2 then [r] else []), cs)
         \<and> frames_left n' = frames_left (objs r) - 2 \<and> unit n' = Some u
         \<and> influence_grid n' = None"
  using assms
  by (cases "best_target_pos (objs r)") (auto simp: update_info_def run_step_def Let_def)

lemma update_one:
  assumes "active_novas m = [r]" "unit (objects st r) = Some u"
    "influence_grid (objects st r) = None" "2 \<le> frames_left (objects st r)"
  shows "\<exists>st' m' cs. update st m es fs = (None, st', m', cs)
         \<and> active_novas m' = (if frames_left (objects st r) \<le> 2 then [] else [r])
         \<and> frames_left (objects st' r) = frames_left (objects st r) - 2
         \<and> unit (objects st' r) = Some u \<and> influence_grid (objects st' r) = None"
proof -
  from update_loop_one[where objs="objects st" and r=r and es=es and fs=fs, OF assms(2,3,4)]
  obtain n' cs where l: "update_loop (objects st) [r] es fs [] [] =
           (None, (objects st)(r := n'), (if frames_left (objects st r) \<le> 2 then [r] else []), cs)"
    and n': "frames_left n' = frames_left (objects st r) - 2" "unit n' = Some u"
      "influence_grid n' = None"
    by blast
  show ?thesis
    using l n' assms(1) by (simp add: update_def)
qed

lemma ticks_countdown:
  assumes "active_novas m = [r]" "unit (objects st r) = Some u"
    "influence_grid (objects st r) = None" "frames_left (objects st r) = 2 * int j" "k < j"
  shows "\<exists>st' m'. ticks k st m es fs = (None, st', m') \<and> active_novas m' = [r]
         \<and> frames_left (objects st' r) = 2 * int (j - k)
         \<and> unit (objects st' r) = Some u \<and> influence_grid (objects st' r) = None"
  using assms
proof (induction k arbitrary: st m j)
  case 0
  then show ?case by simp
next
  case (Suc k)
  from Suc.prems have f: "2 \<le> frames_left (objects st r)" by simp
  from update_one[OF Suc.prems(1,2,3) f, of es fs]
  obtain st1 m1 cs where u: "update st m es fs = (None, st1, m1, cs)"
    and a: "active_novas m1 = (if frames_left (objects st r) \<le> 2 then [] else [r])"
    and fl: "frames_left (objects st1 r) = frames_left (objects st r) - 2"
    and un: "unit (objects st1 r) = Some u" "influence_grid (objects st1 r) = None"
    by blast
  from Suc.prems obtain j' where j: "j = Suc j'" by (cases j) auto
  from Suc.prems j have a1: "active_novas m1 = [r]" using a by simp
  from fl Suc.prems j have fl1: "frames_left (objects st1 r) = 2 * int j'" by simp
  from Suc.prems j have kj: "k < j'" by simp
  from Suc.IH[OF a1 un fl1 kj] u j show ?case by simp
qed

lemma ticks_expiry:
  assumes "active_novas m = [r]" "unit (objects st r) = Some u"
    "influence_grid (objects st r) = None" "frames_left (objects st r) = 2 * int (Suc j)"
  shows "\<exists>st' m'. ticks (Suc j) st m es fs = (None, st', m') \<and> active_novas m' = []
         \<and> frames_left (objects st' r) = 0"
  using assms
proof (induction j arbitrary: st m)
  case 0
  from 0 have f: "2 \<le> frames_left (objects st r)" by simp
  from update_one[OF 0(1,2,3) f, of es fs] 0(4) show ?case by auto
next
  case (Suc j)
  from Suc.prems have f: "2 \<le> frames_left (objects st r)" by simp
  from update_one[OF Suc.prems(1,2,3) f, of es fs]
  obtain st1 m1 cs where u: "update st m es fs = (None, st1, m1, cs)"
    and a: "active_novas m1 = (if frames_left (objects st r) \<le> 2 then [] else [r])"
    and fl: "frames_left (objects st1 r) = frames_left (objects st r) - 2"
    and un: "unit (objects st1 r) = Some u" "influence_grid (objects st1 r) = None"
    by blast
  from Suc.prems a have a1: "active_novas m1 = [r]" by simp
  from fl Suc.prems have fl1: "frames_left (objects st1 r) = 2 * int (Suc j)" by simp
  from Suc.IH[OF a1 un fl1] obtain st' m' where
    "ticks (Suc j) st1 m1 es fs = (None, st', m')" "active_novas m' = []"
    "frames_left (objects st' r) = 0" by blast
  with u show ?case by (simp del: ticks.simps add: ticks.simps(2)[of "Suc j" st m])
qed

lemma tracked_fields:
  "active_novas tracking_manager = [0]"
  "unit (objects tracked_store 0) = Some flying_unit"
  "influence_grid (objects tracked_store 0) = None"
  "frames_left (objects tracked_store 0) = 48"
  by (simp_all add: tracking_manager_def NovaManager_init_def tracked_store_def load_info_def
      Let_def watching_def init_def)

text \<open>
  C1. A manager with one nova, bound to its unit and with 48 frames left. Each
  \<open>update\<close> lowers the counter twice, once in \<open>update_info\<close> and once in \<open>run_step\<close>:
  after the first tick 46 frames are left, the nova is still active after 23 ticks
  and it is removed by the 24th, not the 48th.
\<close>

theorem nova_expires_after_24_ticks:
  "frames_left (objects (fst (snd (ticks 1 tracked_store tracking_manager es fs))) 0) = 46
   \<and> active_novas (snd (snd (ticks 23 tracked_store tracking_manager es fs))) = [0]
   \<and> active_novas (snd (snd (ticks 24 tracked_store tracking_manager es fs))) = []
   \<and> fst (ticks 24 tracked_store tracking_manager es fs) = None"
proof -
  have f48: "frames_left (objects tracked_store 0) = 2 * int 24" by (simp add: tracked_fields)
  from ticks_countdown[OF tracked_fields(1,2,3) f48, of 1 es fs]
  have a: "frames_left (objects (fst (snd (ticks 1 tracked_store tracking_manager es fs))) 0) = 46"
    by auto
  from ticks_countdown[OF tracked_fields(1,2,3) f48, of 23 es fs]
  have b: "active_novas (snd (snd (ticks 23 tracked_store tracking_manager es fs))) = [0]"
    by auto
  have f48': "frames_left (objects tracked_store 0) = 2 * int (Suc 23)" by (simp add: tracked_fields)
  from ticks_expiry[OF tracked_fields(1,2,3) f48', of es fs]
  have c: "active_novas (snd (snd (ticks 24 tracked_store tracking_manager es fs))) = []
    \<and> fst (ticks 24 tracked_store tracking_manager es fs) = None"
    by auto
  from a b c show ?thesis by simp
qed

end
